theory Spec2Isabelle
  imports Main "HOL-Library.Word"
begin

section \<open>The AssemblyAI speech-to-text adapter (assemblyai/stt.ts)\<close>

subsection \<open>JavaScript values the adapter handles\<close>

text \<open>
  An optional field of a TypeScript interface is an \<open>option\<close>: \<open>None\<close> is
  \<open>undefined\<close>. The operator \<open>a || b\<close> yields \<open>a\<close> when \<open>a\<close> is truthy and
  \<open>b\<close> otherwise; the empty string, the number zero, \<open>false\<close> and \<open>undefined\<close>
  are falsy.

  A sample rate is taken to be an integer of magnitude below \<open>10^21\<close>. On that range
  \<open>Number.prototype.toString\<close> gives the decimal digits, with a minus sign for a
  negative number, and \<open>URLSearchParams\<close> escapes none of these characters. From
  \<open>10^21\<close> on JavaScript prints an exponent, which \<open>number_toString\<close> does not
  reproduce; fractional rates are not represented.
\<close>

datatype js_error = JsError string

definition or_string :: "string option \<Rightarrow> string \<Rightarrow> string" where
  "or_string a b = (case a of None \<Rightarrow> b | Some s \<Rightarrow> if s = [] then b else s)"

definition or_number :: "int option \<Rightarrow> int \<Rightarrow> int" where
  "or_number a b = (case a of None \<Rightarrow> b | Some n \<Rightarrow> if n = 0 then b else n)"

definition or_boolean :: "bool option \<Rightarrow> bool \<Rightarrow> bool" where
  "or_boolean a b = (case a of None \<Rightarrow> b | Some v \<Rightarrow> if v then v else b)"

definition boolean_toString :: "bool \<Rightarrow> string" where
  "boolean_toString b = (if b then ''true'' else ''false'')"

fun digits :: "nat \<Rightarrow> string" where
  "digits n =
     (if n < 10 then [char_of (48 + n)]
      else digits (n div 10) @ [char_of (48 + n mod 10)])"

declare digits.simps [simp del]

definition number_toString :: "int \<Rightarrow> string" where
  "number_toString i = (if i < 0 then ''-'' @ digits (nat (- i)) else digits (nat i))"

text \<open>The process environment, \<open>process.env\<close>: a dictionary from names to strings.\<close>

type_synonym environment = "string \<rightharpoonup> string"

subsection \<open>Options, events and vendor messages\<close>

record AssemblyAISTTOptions =
  opt_apiKey :: "string option"
  opt_sampleRate :: "int option"
  opt_formatTurns :: "bool option"

text \<open>
  The two event kinds of \<open>VoiceAgentEvent.STTEvent\<close> that the adapter builds, each
  with its transcript and the \<open>Date.now()\<close> reading taken when it was built.
\<close>

datatype STTEvent =
    stt_chunk (transcript: string) (ts: int)
  | stt_output (transcript: string) (ts: int)

text \<open>
  \<open>AssemblyAISTTMessage\<close>, as the message handler reads it: the \<open>type\<close> tag and,
  for a turn, \<open>transcript\<close> and \<open>turn_is_formatted\<close>, for an error, \<open>error\<close>.
  \<open>MsgOther t\<close> is a parsed object whose tag \<open>t\<close> is none of the four.
\<close>

datatype AssemblyAISTTMessage =
    MsgBegin
  | MsgTurn string bool
  | MsgTermination
  | MsgError string
  | MsgOther string

text \<open>
  What the first lines of the \<open>message\<close> handler make of one frame:
  \<open>JSON.parse(data.toString())\<close>, or the read of \<open>type\<close> on a parsed \<open>null\<close>,
  throws, or there is a message to dispatch on.
\<close>

datatype raw_data = Unparseable js_error | Json AssemblyAISTTMessage

datatype frame = Binary "8 word list" | Text string

subsection \<open>The instance\<close>

text \<open>
  \<open>writableIterator\<close> lives in a module of its own; the adapter only calls
  \<open>push\<close> and \<open>cancel\<close> on it. The instance therefore records the calls made on
  its buffer, oldest first.
\<close>

datatype 'a iterator_call = Push 'a | Cancel

datatype ready_state = CONNECTING | OPEN | CLOSING | CLOSED

datatype promise_state = Pending | Resolved | Rejected js_error

text \<open>
  One \<open>new WebSocket(url, {headers})\<close> together with the promise built around it.
  \<open>frames\<close> are the frames handed to the network by \<open>send\<close>.
\<close>

record websocket =
  ws_url :: string
  ws_authorization :: string
  readyState :: ready_state
  promise :: promise_state
  frames :: "frame list"

text \<open>Suspended asynchronous calls: what runs once the awaited thing happens.\<close>

datatype continuation = SendAudioK "8 word list" | CloseK

datatype task =
    AwaitConnection nat continuation
  | AwaitTimeout nat nat

datatype outcome =
    sendAudio_resolved
  | sendAudio_rejected js_error
  | close_resolved
  | close_rejected js_error

datatype log_entry = console_log string | console_error js_error

record AssemblyAISTT =
  apiKey :: string
  sampleRate :: int
  formatTurns :: bool
  bufferIterator :: "STTEvent iterator_call list"
  connectionPromise :: "nat option"
  sockets :: "websocket list"
  tasks :: "task list"
  settled :: "outcome list"
  console :: "log_entry list"

subsection \<open>The constructor\<close>

definition constructor ::
  "AssemblyAISTTOptions \<Rightarrow> environment \<Rightarrow> js_error + AssemblyAISTT" where
  "constructor options env =
     (let key = or_string (opt_apiKey options) (or_string (env ''ASSEMBLYAI_API_KEY'') '''');
          rate = or_number (opt_sampleRate options) 16000;
          fmt = or_boolean (opt_formatTurns options) True
      in if key = [] then Inl (JsError ''AssemblyAI API key is required'')
         else Inr \<lparr> apiKey = key, sampleRate = rate, formatTurns = fmt,
                    bufferIterator = [], connectionPromise = None, sockets = [],
                    tasks = [], settled = [], console = [] \<rparr>)"

text \<open>The address the \<open>_connection\<close> getter dials.\<close>

definition connection_url :: "AssemblyAISTT \<Rightarrow> string" where
  "connection_url this =
     ''wss://streaming.assemblyai.com/v3/ws?'' @
     ''sample_rate='' @ number_toString (sampleRate this) @
     ''&format_turns='' @ boolean_toString (formatTurns this)"

subsection \<open>The WebSocket object\<close>

text \<open>
  The part of the \<open>ws\<close> package the adapter relies on. \<open>send\<close> throws while the
  socket is still connecting, hands the frame to the network while it is open, and
  drops it (no callback is given) once it is closing or closed. \<open>close\<close> starts the
  closing handshake of a socket that is not yet closing. An index outside the list of
  sockets names no socket, and nothing happens.
\<close>

definition update_socket ::
  "nat \<Rightarrow> (websocket \<Rightarrow> websocket) \<Rightarrow> AssemblyAISTT \<Rightarrow> AssemblyAISTT" where
  "update_socket i f this =
     (if i < length (sockets this)
      then this\<lparr>sockets := (sockets this)[i := f (sockets this ! i)]\<rparr>
      else this)"

definition ws_send :: "nat \<Rightarrow> frame \<Rightarrow> AssemblyAISTT \<Rightarrow> js_error + AssemblyAISTT" where
  "ws_send i f this =
     (if i < length (sockets this) then
        (case readyState (sockets this ! i) of
           CONNECTING \<Rightarrow> Inl (JsError ''WebSocket is not open: readyState 0 (CONNECTING)'')
         | OPEN \<Rightarrow> Inr (update_socket i (\<lambda>w. w\<lparr>frames := frames w @ [f]\<rparr>) this)
         | CLOSING \<Rightarrow> Inr this
         | CLOSED \<Rightarrow> Inr this)
      else Inr this)"

definition ws_close :: "nat \<Rightarrow> AssemblyAISTT \<Rightarrow> AssemblyAISTT" where
  "ws_close i this =
     update_socket i
       (\<lambda>w. if readyState w = CONNECTING \<or> readyState w = OPEN
            then w\<lparr>readyState := CLOSING\<rparr> else w) this"

subsection \<open>Logging\<close>

definition log :: "string \<Rightarrow> AssemblyAISTT \<Rightarrow> AssemblyAISTT" where
  "log s this = this\<lparr>console := console this @ [console_log s]\<rparr>"

definition log_error :: "js_error \<Rightarrow> AssemblyAISTT \<Rightarrow> AssemblyAISTT" where
  "log_error e this = this\<lparr>console := console this @ [console_error e]\<rparr>"

definition error_toString :: "js_error \<Rightarrow> string" where
  "error_toString e = (case e of JsError m \<Rightarrow> ''Error: '' @ m)"

definition message_type :: "AssemblyAISTTMessage \<Rightarrow> string" where
  "message_type m =
     (case m of MsgBegin \<Rightarrow> ''Begin'' | MsgTurn t f \<Rightarrow> ''Turn''
      | MsgTermination \<Rightarrow> ''Termination'' | MsgError e \<Rightarrow> ''Error'' | MsgOther t \<Rightarrow> t)"

subsection \<open>The handlers the getter installs on a socket\<close>

definition push :: "STTEvent \<Rightarrow> AssemblyAISTT \<Rightarrow> AssemblyAISTT" where
  "push e this = this\<lparr>bufferIterator := bufferIterator this @ [Push e]\<rparr>"

definition cancel :: "AssemblyAISTT \<Rightarrow> AssemblyAISTT" where
  "cancel this = this\<lparr>bufferIterator := bufferIterator this @ [Cancel]\<rparr>"

text \<open>
  The \<open>message\<close> handler; \<open>now\<close> is what \<open>Date.now()\<close> returns during the call.
  A \<open>throw\<close> inside the \<open>try\<close> block, whether from \<open>JSON.parse\<close> or from the
  \<open>Error\<close> branch, lands in the \<open>catch\<close>, which prints the error.
\<close>

definition on_message :: "raw_data \<Rightarrow> int \<Rightarrow> AssemblyAISTT \<Rightarrow> AssemblyAISTT" where
  "on_message data now this =
     (case data of
        Unparseable e \<Rightarrow> log_error e this
      | Json message \<Rightarrow>
          (let this1 = log (''[DEBUG] Received message type: '' @ message_type message) this
           in case message of
                MsgBegin \<Rightarrow> log ''[DEBUG] Begin message received'' this1
              | MsgTurn text formatted \<Rightarrow>
                  (let this2 =
                     log (''[DEBUG] Turn event - transcript: '' @ [CHR 0x27] @ text @ [CHR 0x27]
                          @ '', formatted: '' @ boolean_toString formatted) this1
                   in if formatted then
                        (if text \<noteq> [] then
                           push (stt_output text now)
                             (log (''[DEBUG] Emitting STTOutputEvent: '' @ text) this2)
                         else this2)
                      else push (stt_chunk text now) this2)
              | MsgTermination \<Rightarrow> log ''[DEBUG] Termination message received'' this1
              | MsgError e \<Rightarrow> log_error (JsError e) this1
              | MsgOther t \<Rightarrow> this1))"

text \<open>The frame \<open>JSON.stringify({ terminate_session: true })\<close>.\<close>

definition terminate_message :: string where
  \<open>terminate_message = ''{"terminate_session":true}''\<close>

text \<open>
  An asynchronous method runs up to its next \<open>await\<close> and is then suspended as a
  task. \<open>resume\<close> is the rest of the method once the connection promise has given
  its socket \<open>p\<close>; \<open>reject\<close> is what the method does when the promise fails.
  \<open>close_finish\<close> is the end of \<open>close\<close>, after the \<open>try\<close> statement.
\<close>

definition close_finish :: "nat \<Rightarrow> AssemblyAISTT \<Rightarrow> AssemblyAISTT" where
  "close_finish p this =
     (let this1 = ws_close p this in this1\<lparr>settled := settled this1 @ [close_resolved]\<rparr>)"

definition resume :: "continuation \<Rightarrow> nat \<Rightarrow> AssemblyAISTT \<Rightarrow> AssemblyAISTT" where
  "resume k p this =
     (case k of
        SendAudioK buffer \<Rightarrow>
          (case ws_send p (Binary buffer) this of
             Inl e \<Rightarrow> this\<lparr>settled := settled this @ [sendAudio_rejected e]\<rparr>
           | Inr this1 \<Rightarrow> this1\<lparr>settled := settled this1 @ [sendAudio_resolved]\<rparr>)
      | CloseK \<Rightarrow>
          (let this1 = log ''[DEBUG] Sending terminate message to force turn formatting'' this
           in case ws_send p (Text terminate_message) this1 of
                Inr this2 \<Rightarrow> this2\<lparr>tasks := tasks this2 @ [AwaitTimeout 100 p]\<rparr>
              | Inl e \<Rightarrow>
                  close_finish p
                    (log (''[DEBUG] Error sending terminate: '' @ error_toString e) this1)))"

definition reject :: "continuation \<Rightarrow> js_error \<Rightarrow> AssemblyAISTT \<Rightarrow> AssemblyAISTT" where
  "reject k e this =
     (case k of
        SendAudioK buffer \<Rightarrow> this\<lparr>settled := settled this @ [sendAudio_rejected e]\<rparr>
      | CloseK \<Rightarrow> this\<lparr>settled := settled this @ [close_rejected e]\<rparr>)"

fun waiting :: "nat \<Rightarrow> task list \<Rightarrow> continuation list" where
  "waiting p [] = []"
| "waiting p (AwaitConnection q k # rest) = (if q = p then k # waiting p rest else waiting p rest)"
| "waiting p (AwaitTimeout ms q # rest) = waiting p rest"

fun not_waiting :: "nat \<Rightarrow> task list \<Rightarrow> task list" where
  "not_waiting p [] = []"
| "not_waiting p (AwaitConnection q k # rest) =
     (if q = p then not_waiting p rest else AwaitConnection q k # not_waiting p rest)"
| "not_waiting p (AwaitTimeout ms q # rest) = AwaitTimeout ms q # not_waiting p rest"

text \<open>
  The \<open>open\<close> handler calls \<open>resolve(ws)\<close>: a pending promise becomes resolved and
  the methods waiting for it go on, in the order they started waiting.
\<close>

definition on_open :: "nat \<Rightarrow> AssemblyAISTT \<Rightarrow> AssemblyAISTT" where
  "on_open p this =
     (if p < length (sockets this) \<and> promise (sockets this ! p) = Pending then
        foldl (\<lambda>s k. resume k p s)
          ((update_socket p (\<lambda>w. w\<lparr>promise := Resolved\<rparr>) this)
             \<lparr>tasks := not_waiting p (tasks this)\<rparr>)
          (waiting p (tasks this))
      else this)"

text \<open>
  The \<open>error\<close> handler cancels the buffer and calls \<open>reject(error)\<close>, which has an
  effect only on a promise that is still pending.
\<close>

definition on_error :: "nat \<Rightarrow> js_error \<Rightarrow> AssemblyAISTT \<Rightarrow> AssemblyAISTT" where
  "on_error p e this =
     (let this1 = cancel this
      in if p < length (sockets this1) \<and> promise (sockets this1 ! p) = Pending then
           foldl (\<lambda>s k. reject k e s)
             ((update_socket p (\<lambda>w. w\<lparr>promise := Rejected e\<rparr>) this1)
                \<lparr>tasks := not_waiting p (tasks this1)\<rparr>)
             (waiting p (tasks this1))
         else this1)"

definition on_close :: "AssemblyAISTT \<Rightarrow> AssemblyAISTT" where
  "on_close this = this\<lparr>connectionPromise := None\<rparr>"

subsection \<open>The getter and the methods\<close>

text \<open>
  The \<open>_connection\<close> getter returns the promise it holds, or opens a socket and
  holds the promise built around it. A promise is named by the index of its socket.
\<close>

definition connection :: "AssemblyAISTT \<Rightarrow> nat \<times> AssemblyAISTT" where
  "connection this =
     (case connectionPromise this of
        Some p \<Rightarrow> (p, this)
      | None \<Rightarrow>
          (let p = length (sockets this);
               ws = \<lparr> ws_url = connection_url this, ws_authorization = apiKey this,
                      readyState = CONNECTING, promise = Pending, frames = [] \<rparr>
           in (p, this\<lparr>sockets := sockets this @ [ws], connectionPromise := Some p\<rparr>)))"

definition await_connection :: "nat \<Rightarrow> continuation \<Rightarrow> AssemblyAISTT \<Rightarrow> AssemblyAISTT" where
  "await_connection p k this =
     (if p < length (sockets this) then
        (case promise (sockets this ! p) of
           Pending \<Rightarrow> this\<lparr>tasks := tasks this @ [AwaitConnection p k]\<rparr>
         | Resolved \<Rightarrow> resume k p this
         | Rejected e \<Rightarrow> reject k e this)
      else this)"

definition sendAudio :: "8 word list \<Rightarrow> AssemblyAISTT \<Rightarrow> AssemblyAISTT" where
  "sendAudio buffer this =
     (case connection this of (p, this1) \<Rightarrow> await_connection p (SendAudioK buffer) this1)"

definition close :: "AssemblyAISTT \<Rightarrow> AssemblyAISTT" where
  "close this =
     (case connectionPromise this of
        Some p \<Rightarrow> await_connection p CloseK this
      | None \<Rightarrow> this\<lparr>settled := settled this @ [close_resolved]\<rparr>)"

text \<open>
  The timer of \<open>close\<close> runs out: the oldest waiting \<open>setTimeout\<close> fires and that
  call of \<open>close\<close> goes on to \<open>ws.close()\<close>.
\<close>

fun next_timeout :: "task list \<Rightarrow> (nat \<times> task list) option" where
  "next_timeout [] = None"
| "next_timeout (AwaitTimeout ms p # rest) = Some (p, rest)"
| "next_timeout (AwaitConnection q k # rest) =
     (case next_timeout rest of
        None \<Rightarrow> None
      | Some (p, others) \<Rightarrow> Some (p, AwaitConnection q k # others))"

definition on_timeout :: "AssemblyAISTT \<Rightarrow> AssemblyAISTT" where
  "on_timeout this =
     (case next_timeout (tasks this) of
        None \<Rightarrow> this
      | Some (p, rest) \<Rightarrow> close_finish p (this\<lparr>tasks := rest\<rparr>))"

subsection \<open>What happens to an instance\<close>

text \<open>
  A call of a method, or an event the \<open>ws\<close> package or the timer delivers. The
  package sets \<open>readyState\<close> before it calls the handlers: open before \<open>open\<close>,
  closing before \<open>error\<close>, closed before \<open>close\<close>.
\<close>

datatype event =
    CallSendAudio "8 word list"
  | CallClose
  | WsOpen nat
  | WsMessage nat raw_data int
  | WsError nat js_error
  | WsClose nat
  | Timeout

definition step :: "event \<Rightarrow> AssemblyAISTT \<Rightarrow> AssemblyAISTT" where
  "step ev this =
     (case ev of
        CallSendAudio buffer \<Rightarrow> sendAudio buffer this
      | CallClose \<Rightarrow> close this
      | WsOpen p \<Rightarrow> on_open p (update_socket p (\<lambda>w. w\<lparr>readyState := OPEN\<rparr>) this)
      | WsMessage p data now \<Rightarrow> (if p < length (sockets this) then on_message data now this else this)
      | WsError p e \<Rightarrow>
          (if p < length (sockets this)
           then on_error p e (update_socket p (\<lambda>w. w\<lparr>readyState := CLOSING\<rparr>) this)
           else this)
      | WsClose p \<Rightarrow>
          (if p < length (sockets this)
           then on_close (update_socket p (\<lambda>w. w\<lparr>readyState := CLOSED\<rparr>) this)
           else this)
      | Timeout \<Rightarrow> on_timeout this)"

definition run :: "event list \<Rightarrow> AssemblyAISTT \<Rightarrow> AssemblyAISTT" where
  "run evs this = foldl (\<lambda>s ev. step ev s) this evs"

subsection \<open>Reading the buffer\<close>



section \<open>The Lambda handler's secrets\<close>

text \<open>
  What \<open>JSON.parse\<close> makes of the secret string, as far as \<open>getSecrets\<close> tells
  values apart: \<open>null\<close>, on which \<open>Object.entries\<close> throws; another falsy value
  (\<open>0\<close>, \<open>false\<close>, the empty string), which has no entries; and a truthy value,
  given by its entries, each value as the string that the assignment to
  \<open>process.env\<close> stores.
\<close>

datatype secrets = SecretsNull | SecretsFalsy | SecretsRecord "(string \<times> string) list"

text \<open>
  The module's variable \<open>cachedSecrets\<close> and \<open>process.env\<close>; \<open>fetches\<close> counts
  the calls of \<open>client.send\<close>.
\<close>

record lambda_process =
  cachedSecrets :: secrets
  process_env :: environment
  fetches :: nat

text \<open>
  The assignment \<open>process.env[key] = value\<close>. The environment of the process cannot
  hold an empty name or a name with an equals sign in it, and such an assignment is
  dropped without an error.
\<close>

definition assign_environment :: "string \<Rightarrow> string \<Rightarrow> environment \<Rightarrow> environment" where
  "assign_environment key val env =
     (if key = [] \<or> CHR ''='' \<in> set key then env else env(key \<mapsto> val))"

definition set_environment :: "(string \<times> string) list \<Rightarrow> environment \<Rightarrow> environment" where
  "set_environment entries env = foldl (\<lambda>e (key, val). assign_environment key val e) env entries"

text \<open>
  \<open>send region arn\<close> is the Secrets Manager's answer, the \<open>SecretString\<close> of the
  response or a failure, and \<open>parse\<close> is \<open>JSON.parse\<close>; both are outside the
  program.
\<close>

definition getSecrets ::
  "(string option \<Rightarrow> string \<Rightarrow> js_error + string option) \<Rightarrow> (string \<Rightarrow> js_error + secrets) \<Rightarrow>
   lambda_process \<Rightarrow> (js_error + secrets) \<times> lambda_process" where
  "getSecrets send parse st =
     (case cachedSecrets st of
        SecretsRecord entries \<Rightarrow> (Inr (SecretsRecord entries), st)
      | _ \<Rightarrow>
        (case process_env st ''SECRETS_ARN'' of
           None \<Rightarrow> (Inl (JsError ''SECRETS_ARN environment variable not set''), st)
         | Some secretsArn \<Rightarrow>
             if secretsArn = [] then
               (Inl (JsError ''SECRETS_ARN environment variable not set''), st)
             else
               (let st1 = st\<lparr>fetches := fetches st + 1\<rparr>
                in case send (process_env st ''AWS_REGION'') secretsArn of
                     Inl e \<Rightarrow> (Inl e, st1)
                   | Inr None \<Rightarrow> (Inl (JsError ''Secret value is empty''), st1)
                   | Inr (Some secretString) \<Rightarrow>
                       if secretString = [] then (Inl (JsError ''Secret value is empty''), st1)
                       else
                         (case parse secretString of
                            Inl e \<Rightarrow> (Inl e, st1)
                          | Inr SecretsNull \<Rightarrow>
                              (Inl (JsError ''Cannot convert undefined or null to object''),
                               st1\<lparr>cachedSecrets := SecretsNull\<rparr>)
                          | Inr SecretsFalsy \<Rightarrow>
                              (Inr SecretsFalsy, st1\<lparr>cachedSecrets := SecretsFalsy\<rparr>)
                          | Inr (SecretsRecord entries) \<Rightarrow>
                              (Inr (SecretsRecord entries),
                               st1\<lparr>cachedSecrets := SecretsRecord entries,
                                   process_env := set_environment entries (process_env st1)\<rparr>)))))"

section \<open>An instance to run\<close>

definition sample_instance :: AssemblyAISTT where
  "sample_instance =
     \<lparr> apiKey = ''key'', sampleRate = 16000, formatTurns = True, bufferIterator = [],
       connectionPromise = None, sockets = [], tasks = [], settled = [], console = [] \<rparr>"

section \<open>Invariants\<close>

text \<open>
  Every socket the instance has opened was dialled with the sample rate \<open>r\<close> and
  with \<open>format_turns=true\<close>, and the instance still holds these settings.
\<close>

definition dials :: "int \<Rightarrow> AssemblyAISTT \<Rightarrow> bool" where
  "dials r this \<longleftrightarrow>
     formatTurns this \<and> sampleRate this = r \<and>
     (\<forall>w \<in> set (sockets this).
        ws_url w = ''wss://streaming.assemblyai.com/v3/ws?sample_rate='' @ number_toString r @ ''&format_turns=true'')"

section \<open>Properties\<close>

subsection \<open>The settings and the addresses dialled never change\<close>

lemma dials_update_socket:
  assumes "\<And>w. ws_url (f w) = ws_url w" and "dials r this"
  shows "dials r (update_socket i f this)"
proof -
  have "set ((sockets this)[i := f (sockets this ! i)]) \<subseteq> insert (f (sockets this ! i)) (set (sockets this))"
    by (rule set_update_subset_insert)
  moreover have "i < length (sockets this) \<Longrightarrow> sockets this ! i \<in> set (sockets this)"
    by simp
  ultimately show ?thesis
    using assms by (auto simp: dials_def update_socket_def)
qed

lemma dials_ws_send: "dials r this \<Longrightarrow> ws_send i f this = Inr this1 \<Longrightarrow> dials r this1"
  by (auto simp: ws_send_def dials_update_socket split: if_splits ready_state.splits)

lemma dials_ws_close: "dials r this \<Longrightarrow> dials r (ws_close i this)"
  unfolding ws_close_def by (rule dials_update_socket) auto

lemma dials_fields:
  "dials r this \<Longrightarrow> dials r (this\<lparr>console := c\<rparr>)"
  "dials r this \<Longrightarrow> dials r (this\<lparr>settled := s\<rparr>)"
  "dials r this \<Longrightarrow> dials r (this\<lparr>tasks := t\<rparr>)"
  "dials r this \<Longrightarrow> dials r (this\<lparr>bufferIterator := b\<rparr>)"
  "dials r this \<Longrightarrow> dials r (this\<lparr>connectionPromise := p\<rparr>)"
  by (simp_all add: dials_def)

lemma dials_close_finish: "dials r this \<Longrightarrow> dials r (close_finish p this)"
  by (simp add: close_finish_def Let_def dials_fields dials_ws_close)

lemma dials_resume: "dials r this \<Longrightarrow> dials r (resume k p this)"
  by (auto simp: resume_def Let_def log_def dials_fields dials_close_finish
      intro!: dials_fields dest: dials_ws_send[rotated] split: continuation.splits sum.splits)

lemma dials_reject: "dials r this \<Longrightarrow> dials r (reject k e this)"
  by (simp add: reject_def dials_fields split: continuation.splits)

lemma dials_foldl_resume: "dials r this \<Longrightarrow> dials r (foldl (\<lambda>s k. resume k p s) this ks)"
  by (induction ks arbitrary: this) (simp_all add: dials_resume)

lemma dials_foldl_reject: "dials r this \<Longrightarrow> dials r (foldl (\<lambda>s k. reject k e s) this ks)"
  by (induction ks arbitrary: this) (simp_all add: dials_reject)

lemma dials_on_open: "dials r this \<Longrightarrow> dials r (on_open p this)"
  by (simp add: on_open_def dials_foldl_resume dials_fields dials_update_socket)

lemma dials_on_error: "dials r this \<Longrightarrow> dials r (on_error p e this)"
  by (simp add: on_error_def Let_def cancel_def dials_foldl_reject dials_fields dials_update_socket)

lemma dials_on_message: "dials r this \<Longrightarrow> dials r (on_message d now this)"
  by (simp add: on_message_def Let_def log_def log_error_def push_def dials_fields
      split: raw_data.splits AssemblyAISTTMessage.splits)

lemma dials_await: "dials r this \<Longrightarrow> dials r (await_connection p k this)"
  by (simp add: await_connection_def dials_fields dials_resume dials_reject split: promise_state.splits)

lemma dials_connection: "dials r this \<Longrightarrow> dials r (snd (connection this))"
  by (auto simp: connection_def Let_def dials_def connection_url_def boolean_toString_def split: option.splits)

lemma dials_sendAudio: "dials r this \<Longrightarrow> dials r (sendAudio b this)"
  using dials_connection[of r this]
  by (auto simp: sendAudio_def dials_await split: prod.splits)

lemma dials_close: "dials r this \<Longrightarrow> dials r (close this)"
  by (simp add: close_def dials_await dials_fields split: option.splits)

lemma dials_on_timeout: "dials r this \<Longrightarrow> dials r (on_timeout this)"
  by (simp add: on_timeout_def dials_close_finish dials_fields split: option.splits prod.splits)

lemma dials_step: "dials r this \<Longrightarrow> dials r (step ev this)"
  by (simp add: step_def dials_sendAudio dials_close dials_on_open dials_on_message dials_on_error
      dials_on_timeout on_close_def dials_fields dials_update_socket split: event.splits)

lemma dials_run: "dials r this \<Longrightarrow> dials r (run evs this)"
  unfolding run_def by (induction evs arbitrary: this) (simp_all add: dials_step)

lemma dials_constructor: "constructor options env = Inr this \<Longrightarrow> dials (sampleRate this) this"
  by (auto simp: constructor_def Let_def dials_def or_boolean_def split: if_splits option.splits)

subsection \<open>Which calls reach the buffer\<close>

lemma buffer_update_socket [simp]: "bufferIterator (update_socket i f this) = bufferIterator this"
  by (simp add: update_socket_def)

lemma buffer_ws_send: "ws_send i f this = Inr this1 \<Longrightarrow> bufferIterator this1 = bufferIterator this"
  by (auto simp: ws_send_def split: if_splits ready_state.splits)

lemma buffer_close_finish [simp]: "bufferIterator (close_finish p this) = bufferIterator this"
  by (simp add: close_finish_def Let_def ws_close_def)

lemma buffer_resume [simp]: "bufferIterator (resume k p this) = bufferIterator this"
  by (auto simp: resume_def Let_def log_def dest: buffer_ws_send split: continuation.splits sum.splits)

lemma buffer_reject [simp]: "bufferIterator (reject k e this) = bufferIterator this"
  by (simp add: reject_def split: continuation.splits)

lemma buffer_foldl_resume [simp]:
  "bufferIterator (foldl (\<lambda>s k. resume k p s) this ks) = bufferIterator this"
  by (induction ks arbitrary: this) simp_all

lemma buffer_foldl_reject [simp]:
  "bufferIterator (foldl (\<lambda>s k. reject k e s) this ks) = bufferIterator this"
  by (induction ks arbitrary: this) simp_all

lemma buffer_on_open [simp]: "bufferIterator (on_open p this) = bufferIterator this"
  by (simp add: on_open_def)

lemma buffer_await [simp]: "bufferIterator (await_connection p k this) = bufferIterator this"
  by (simp add: await_connection_def split: promise_state.splits)

lemma buffer_sendAudio [simp]: "bufferIterator (sendAudio b this) = bufferIterator this"
  by (simp add: sendAudio_def connection_def Let_def split: option.splits)

lemma buffer_close [simp]: "bufferIterator (close this) = bufferIterator this"
  by (simp add: close_def split: option.splits)

lemma buffer_on_timeout [simp]: "bufferIterator (on_timeout this) = bufferIterator this"
  by (simp add: on_timeout_def split: option.splits prod.splits)

lemma buffer_on_error [simp]: "bufferIterator (on_error p e this) = bufferIterator this @ [Cancel]"
  by (simp add: on_error_def Let_def cancel_def)

lemma sockets_reject [simp]: "sockets (reject k e this) = sockets this"
  by (simp add: reject_def split: continuation.splits)

lemma sockets_foldl_reject [simp]:
  "sockets (foldl (\<lambda>s k. reject k e s) this ks) = sockets this"
  by (induction ks arbitrary: this) simp_all

text \<open>What a message does to the instance: the console grows, the buffer may get one push.\<close>

lemma on_message_frame:
  "sockets (on_message d now this) = sockets this \<and>
   tasks (on_message d now this) = tasks this \<and>
   settled (on_message d now this) = settled this \<and>
   connectionPromise (on_message d now this) = connectionPromise this"
  by (simp add: on_message_def Let_def log_def log_error_def push_def
      split: raw_data.splits AssemblyAISTTMessage.splits)

lemma on_message_buffer:
  "bufferIterator (on_message d now this) =
   bufferIterator this @
   (case d of
      Json (MsgTurn text formatted) \<Rightarrow>
        (if formatted then (if text = [] then [] else [Push (stt_output text now)])
         else [Push (stt_chunk text now)])
    | _ \<Rightarrow> [])"
  by (simp add: on_message_def Let_def log_def log_error_def push_def
      split: raw_data.splits AssemblyAISTTMessage.splits)

lemma messages_frame:
  "sockets (foldl (\<lambda>s (d, now). on_message d now s) this msgs) = sockets this \<and>
   tasks (foldl (\<lambda>s (d, now). on_message d now s) this msgs) = tasks this \<and>
   settled (foldl (\<lambda>s (d, now). on_message d now s) this msgs) = settled this"
  by (induction msgs arbitrary: this) (simp_all add: on_message_frame split: prod.splits)

lemma next_timeout_append:
  "next_timeout q = None \<Longrightarrow> next_timeout (q @ [AwaitTimeout ms p]) = Some (p, q)"
  by (induction q rule: next_timeout.induct) (auto split: option.splits prod.splits)

lemma waiting_append: "waiting p (xs @ ys) = waiting p xs @ waiting p ys"
  by (induction xs rule: waiting.induct) simp_all

lemma not_waiting_append: "not_waiting p (xs @ ys) = not_waiting p xs @ not_waiting p ys"
  by (induction xs rule: not_waiting.induct) simp_all

lemma not_waiting_none: "waiting p xs = [] \<Longrightarrow> not_waiting p xs = xs"
  by (induction xs rule: waiting.induct) (simp_all split: if_splits)

lemma messages_buffer:
  "bufferIterator (foldl (\<lambda>s (d, now). on_message d now s) this msgs) =
   bufferIterator this @
   map Push (concat (map (\<lambda>(d, now).
      case d of
        Json (MsgTurn text formatted) \<Rightarrow>
          (if formatted then (if text = [] then [] else [stt_output text now])
           else [stt_chunk text now])
      | _ \<Rightarrow> []) msgs))"
proof (induction msgs arbitrary: this)
  case Nil
  then show ?case by simp
next
  case (Cons m msgs)
  obtain d now where m: "m = (d, now)" by (cases m)
  show ?case
    unfolding m
    by (simp add: Cons.IH on_message_buffer split: raw_data.splits AssemblyAISTTMessage.splits)
qed


lemmas eval_defs =
  run_def step_def sendAudio_def close_def connection_def await_connection_def resume_def
  reject_def on_open_def on_error_def on_close_def on_message_def on_timeout_def close_finish_def
  ws_send_def ws_close_def update_socket_def log_def log_error_def push_def cancel_def
  sample_instance_def Let_def message_type_def boolean_toString_def

subsection \<open>The constructor\<close>

text \<open>
  Claim C10. The constructor throws "AssemblyAI API key is required" exactly when
  \<open>options.apiKey\<close> is absent or empty and the environment variable
  \<open>ASSEMBLYAI_API_KEY\<close> is absent or empty too; it throws nothing else. A non-empty
  \<open>options.apiKey\<close> becomes the instance's key whatever the environment holds.
\<close>

theorem constructor_key_required:
  "(constructor options env = Inl (JsError ''AssemblyAI API key is required'')) =
     ((opt_apiKey options = None \<or> opt_apiKey options = Some []) \<and>
      (env ''ASSEMBLYAI_API_KEY'' = None \<or> env ''ASSEMBLYAI_API_KEY'' = Some []))
   \<and> (\<exists>e. constructor options env = Inl e) =
     ((opt_apiKey options = None \<or> opt_apiKey options = Some []) \<and>
      (env ''ASSEMBLYAI_API_KEY'' = None \<or> env ''ASSEMBLYAI_API_KEY'' = Some []))
   \<and> (opt_apiKey options = Some k \<and> k \<noteq> [] \<longrightarrow>
        (\<exists>this. constructor options env = Inr this \<and> apiKey this = k))"
  by (auto simp: constructor_def or_string_def Let_def split: option.splits)

theorem constructor_key_required_witness:
  "\<exists>this. constructor \<lparr>opt_apiKey = Some ''mine'', opt_sampleRate = None, opt_formatTurns = None\<rparr>
             [''ASSEMBLYAI_API_KEY'' \<mapsto> ''ambient''] = Inr this \<and> apiKey this = ''mine''"
  using constructor_key_required
    [of "\<lparr>opt_apiKey = Some ''mine'', opt_sampleRate = None, opt_formatTurns = None\<rparr>"
        "[''ASSEMBLYAI_API_KEY'' \<mapsto> ''ambient'']" "''mine''"]
  by simp

text \<open>
  Claim C9. Whatever options the constructor is given, also \<open>formatTurns: false\<close>,
  the instance it returns has \<open>formatTurns\<close> true, keeps it true through every call
  and event, and every socket it ever opens is dialled with \<open>format_turns=true\<close>.
\<close>

theorem formatTurns_always_true:
  assumes "constructor options env = Inr this"
  shows "formatTurns this \<and> formatTurns (run evs this) \<and>
         (\<forall>w \<in> set (sockets (run evs this)).
            ws_url w = ''wss://streaming.assemblyai.com/v3/ws?sample_rate=''
                       @ number_toString (sampleRate this) @ ''&format_turns=true'')"
proof -
  have start: "dials (sampleRate this) this"
    using assms by (rule dials_constructor)
  then have "dials (sampleRate this) (run evs this)"
    by (rule dials_run)
  with start show ?thesis
    by (simp add: dials_def)
qed

theorem formatTurns_always_true_witness:
  "constructor \<lparr>opt_apiKey = Some ''key'', opt_sampleRate = None, opt_formatTurns = Some False\<rparr>
     Map.empty = Inr sample_instance \<and>
   formatTurns sample_instance \<and>
   map ws_url (sockets (run [CallSendAudio [1]] sample_instance)) =
     [''wss://streaming.assemblyai.com/v3/ws?sample_rate='' @ number_toString 16000
      @ ''&format_turns=true'']"
proof -
  have made: "constructor \<lparr>opt_apiKey = Some ''key'', opt_sampleRate = None,
      opt_formatTurns = Some False\<rparr> Map.empty = Inr sample_instance"
    by (simp add: constructor_def or_string_def or_number_def or_boolean_def sample_instance_def)
  have one: "length (sockets (run [CallSendAudio [1]] sample_instance)) = 1"
    by (simp add: eval_defs)
  from formatTurns_always_true [OF made, of "[CallSendAudio [1]]"] one made show ?thesis
    by (cases "sockets (run [CallSendAudio [1]] sample_instance)") (simp_all add: sample_instance_def)
qed

subsection \<open>Vendor messages\<close>

text \<open>
  Claim C4. A message adds to the buffer a \<open>stt_chunk\<close> when it is an unformatted
  turn, a \<open>stt_output\<close> when it is a formatted turn with a transcript, and nothing
  in every other case. No call and no other event puts an event on the buffer; the
  socket's \<open>error\<close> event cancels it. \<open>Begin\<close> and \<open>Termination\<close> are
  consumed: they are written to the console and change nothing else.
\<close>

theorem messages_normalized:
  "bufferIterator (on_message data now this) =
     bufferIterator this @
     (case data of
        Json (MsgTurn text formatted) \<Rightarrow>
          (if formatted then (if text = [] then [] else [Push (stt_output text now)])
           else [Push (stt_chunk text now)])
      | _ \<Rightarrow> [])
   \<and> bufferIterator (step ev this) =
     (case ev of
        WsMessage p d t \<Rightarrow>
          if p < length (sockets this) then bufferIterator (on_message d t this)
          else bufferIterator this
      | WsError p e \<Rightarrow>
          if p < length (sockets this) then bufferIterator this @ [Cancel]
          else bufferIterator this
      | _ \<Rightarrow> bufferIterator this)
   \<and> on_message (Json MsgBegin) now this =
       this\<lparr>console := console this @
         [console_log ''[DEBUG] Received message type: Begin'',
          console_log ''[DEBUG] Begin message received'']\<rparr>
   \<and> on_message (Json MsgTermination) now this =
       this\<lparr>console := console this @
         [console_log ''[DEBUG] Received message type: Termination'',
          console_log ''[DEBUG] Termination message received'']\<rparr>"
proof -
  have handler: "bufferIterator (on_message data now this) =
     bufferIterator this @
     (case data of
        Json (MsgTurn text formatted) \<Rightarrow>
          (if formatted then (if text = [] then [] else [Push (stt_output text now)])
           else [Push (stt_chunk text now)])
      | _ \<Rightarrow> [])"
    by (rule on_message_buffer)
  have others: "bufferIterator (step ev this) =
     (case ev of
        WsMessage p d t \<Rightarrow>
          if p < length (sockets this) then bufferIterator (on_message d t this)
          else bufferIterator this
      | WsError p e \<Rightarrow>
          if p < length (sockets this) then bufferIterator this @ [Cancel]
          else bufferIterator this
      | _ \<Rightarrow> bufferIterator this)"
    by (cases ev) (simp_all add: step_def on_close_def)
  have consumed: "on_message (Json MsgBegin) now this =
       this\<lparr>console := console this @
         [console_log ''[DEBUG] Received message type: Begin'',
          console_log ''[DEBUG] Begin message received'']\<rparr>"
    "on_message (Json MsgTermination) now this =
       this\<lparr>console := console this @
         [console_log ''[DEBUG] Received message type: Termination'',
          console_log ''[DEBUG] Termination message received'']\<rparr>"
    by (simp_all add: on_message_def log_def message_type_def)
  from handler others consumed show ?thesis by blast
qed

text \<open>
  Claim C3 as stated fails: a formatted turn whose transcript is empty puts no
  \<open>stt_output\<close> on the buffer, because of the test \<open>if (message.transcript)\<close>.
\<close>

theorem empty_formatted_turn_counterexample:
  "bufferIterator
     (run [CallSendAudio [1], WsOpen 0, WsMessage 0 (Json (MsgTurn '''' True)) 7] sample_instance)
   = []"
  by (simp add: eval_defs)

text \<open>
  Claim C3, amended. A formatted turn with a non-empty transcript adds exactly one
  \<open>stt_output\<close> carrying that transcript, after everything pushed before it; a
  formatted turn with an empty transcript adds nothing; an unformatted turn adds one
  \<open>stt_chunk\<close> and no \<open>stt_output\<close>.
\<close>

theorem formatted_turn_one_output:
  "(text \<noteq> [] \<longrightarrow>
      bufferIterator (on_message (Json (MsgTurn text True)) now this) =
        bufferIterator this @ [Push (stt_output text now)])
   \<and> bufferIterator (on_message (Json (MsgTurn [] True)) now this) = bufferIterator this
   \<and> bufferIterator (on_message (Json (MsgTurn text False)) now this) =
        bufferIterator this @ [Push (stt_chunk text now)]"
  by (simp add: on_message_buffer)

theorem formatted_turn_one_output_witness:
  "bufferIterator
     (on_message (Json (MsgTurn ''turkey sandwich'' True)) 9
        (on_message (Json (MsgTurn ''turkey'' False)) 8 sample_instance))
   = [Push (stt_chunk ''turkey'' 8), Push (stt_output ''turkey sandwich'' 9)]"
  using formatted_turn_one_output
    [of "''turkey sandwich''" 9 "on_message (Json (MsgTurn ''turkey'' False)) 8 sample_instance"]
    formatted_turn_one_output [of "''turkey''" 8 sample_instance]
  by (simp add: sample_instance_def)

text \<open>
  Claim C1 fails on the code. A message of type \<open>Error\<close> is written to the console
  and nothing else happens: the \<open>throw\<close> of that branch is caught by the handler's
  own \<open>catch\<close>. No call is made on the buffer, the socket stays open, and a turn
  that arrives afterwards is still emitted. The socket's \<open>error\<close> event, in the same
  state, does cancel the buffer.
\<close>

theorem vendor_error_message_swallowed:
  "on_message (Json (MsgError e)) now this =
     this\<lparr>console := console this @
       [console_log ''[DEBUG] Received message type: Error'', console_error (JsError e)]\<rparr>
   \<and> bufferIterator
     (run [CallSendAudio [1], WsOpen 0, WsMessage 0 (Json (MsgError ''boom'')) 1] sample_instance)
   = []
   \<and> map readyState (sockets
     (run [CallSendAudio [1], WsOpen 0, WsMessage 0 (Json (MsgError ''boom'')) 1] sample_instance))
   = [OPEN]
   \<and> bufferIterator
     (run [CallSendAudio [1], WsOpen 0, WsMessage 0 (Json (MsgError ''boom'')) 1,
           WsMessage 0 (Json (MsgTurn ''hi'' True)) 2] sample_instance)
   = [Push (stt_output ''hi'' 2)]
   \<and> bufferIterator
     (run [CallSendAudio [1], WsOpen 0, WsError 0 (JsError ''boom'')] sample_instance)
   = [Cancel]"
proof -
  have general: "on_message (Json (MsgError e)) now this =
     this\<lparr>console := console this @
       [console_log ''[DEBUG] Received message type: Error'', console_error (JsError e)]\<rparr>"
    by (simp add: on_message_def log_def log_error_def message_type_def)
  have traces: "bufferIterator
     (run [CallSendAudio [1], WsOpen 0, WsMessage 0 (Json (MsgError ''boom'')) 1] sample_instance)
   = []"
   "map readyState (sockets
     (run [CallSendAudio [1], WsOpen 0, WsMessage 0 (Json (MsgError ''boom'')) 1] sample_instance))
   = [OPEN]"
   "bufferIterator
     (run [CallSendAudio [1], WsOpen 0, WsMessage 0 (Json (MsgError ''boom'')) 1,
           WsMessage 0 (Json (MsgTurn ''hi'' True)) 2] sample_instance)
   = [Push (stt_output ''hi'' 2)]"
   "bufferIterator
     (run [CallSendAudio [1], WsOpen 0, WsError 0 (JsError ''boom'')] sample_instance)
   = [Cancel]"
    by (simp_all add: eval_defs)
  from general traces show ?thesis by blast
qed

subsection \<open>Closing\<close>

text \<open>
  Claim C2 as stated fails for a \<open>close\<close> called while an earlier \<open>close\<close> is
  still waiting: the connection is open when the second call starts, and it is closed
  when the first timer fires, while the second call is still waiting on its own timer.
\<close>

theorem close_during_grace_counterexample:
  "map readyState (sockets (run [CallSendAudio [1], WsOpen 0, CallClose] sample_instance)) = [OPEN]
   \<and> map promise (sockets (run [CallSendAudio [1], WsOpen 0, CallClose] sample_instance)) = [Resolved]
   \<and> connectionPromise (run [CallSendAudio [1], WsOpen 0, CallClose] sample_instance) = Some 0
   \<and> map readyState
        (sockets (run [CallSendAudio [1], WsOpen 0, CallClose, CallClose, Timeout] sample_instance))
      = [CLOSING]
   \<and> tasks (run [CallSendAudio [1], WsOpen 0, CallClose, CallClose, Timeout] sample_instance)
      = [AwaitTimeout 100 0]
   \<and> settled (run [CallSendAudio [1], WsOpen 0, CallClose, CallClose, Timeout] sample_instance)
      = [sendAudio_resolved, close_resolved]"
  by (simp add: eval_defs)

text \<open>
  Claim C2, amended. On an instance whose connection is open, with no earlier
  \<open>close\<close> still waiting, \<open>close\<close> first sends the frame
  \<open>{"terminate_session":true}\<close> and starts a timer of 100 milliseconds. While it
  waits the socket stays open, nothing more is sent, \<open>close\<close> stays unsettled, and
  the transcripts that arrive are put on the buffer. When the timer fires the socket is
  closed and \<open>close\<close> resolves.
\<close>

theorem close_finalizes_waits_then_closes:
  assumes "connectionPromise this = Some p" and "p < length (sockets this)"
    and "promise (sockets this ! p) = Resolved" and "readyState (sockets this ! p) = OPEN"
    and "next_timeout (tasks this) = None"
  shows \<open>frames (sockets (close this) ! p)
        = frames (sockets this ! p) @ [Text ''{"terminate_session":true}'']
    \<and> readyState (sockets (close this) ! p) = OPEN
    \<and> tasks (close this) = tasks this @ [AwaitTimeout 100 p]
    \<and> settled (close this) = settled this
    \<and> bufferIterator (close this) = bufferIterator this
    \<and> bufferIterator (foldl (\<lambda>s (d, now). on_message d now s) (close this) msgs)
        = bufferIterator this @
          map Push (concat (map (\<lambda>(d, now).
            case d of
              Json (MsgTurn text formatted) \<Rightarrow>
                (if formatted then (if text = [] then [] else [stt_output text now])
                 else [stt_chunk text now])
            | _ \<Rightarrow> []) msgs))
    \<and> readyState (sockets (foldl (\<lambda>s (d, now). on_message d now s) (close this) msgs) ! p) = OPEN
    \<and> frames (sockets (foldl (\<lambda>s (d, now). on_message d now s) (close this) msgs) ! p)
        = frames (sockets this ! p) @ [Text ''{"terminate_session":true}'']
    \<and> settled (foldl (\<lambda>s (d, now). on_message d now s) (close this) msgs) = settled this
    \<and> readyState (sockets (on_timeout (foldl (\<lambda>s (d, now). on_message d now s) (close this) msgs)) ! p)
        = CLOSING
    \<and> settled (on_timeout (foldl (\<lambda>s (d, now). on_message d now s) (close this) msgs))
        = settled this @ [close_resolved]\<close>
proof -
  let ?sent = "close this"
  let ?waited = "foldl (\<lambda>s (d, now). on_message d now s) ?sent msgs"
  have literal: \<open>terminate_message = ''{"terminate_session":true}''\<close>
    by (simp add: terminate_message_def)
  have sent: "?sent = this\<lparr>
      console := console this @ [console_log ''[DEBUG] Sending terminate message to force turn formatting''],
      sockets := (sockets this)[p := (sockets this ! p)\<lparr>frames := frames (sockets this ! p) @ [Text terminate_message]\<rparr>],
      tasks := tasks this @ [AwaitTimeout 100 p]\<rparr>"
    using assms(1-4)
    by (simp add: close_def await_connection_def resume_def log_def ws_send_def update_socket_def)
  have a: "frames (sockets ?sent ! p) = frames (sockets this ! p) @ [Text terminate_message]"
    and b: "readyState (sockets ?sent ! p) = OPEN"
    and c: "tasks ?sent = tasks this @ [AwaitTimeout 100 p]"
    and d: "settled ?sent = settled this"
    using assms(2,4) by (simp_all add: sent)
  have buf: "bufferIterator ?sent = bufferIterator this"
    by simp
  have frame: "sockets ?waited = sockets ?sent" "tasks ?waited = tasks ?sent"
    "settled ?waited = settled ?sent"
    by (simp_all add: messages_frame)
  have emitted: "bufferIterator ?waited = bufferIterator this @
          map Push (concat (map (\<lambda>(d, now).
            case d of
              Json (MsgTurn text formatted) \<Rightarrow>
                (if formatted then (if text = [] then [] else [stt_output text now])
                 else [stt_chunk text now])
            | _ \<Rightarrow> []) msgs))"
    unfolding messages_buffer buf ..
  have next_t: "next_timeout (tasks ?waited) = Some (p, tasks this)"
    using assms(5) unfolding frame c by (rule next_timeout_append)
  have len: "p < length (sockets ?waited)"
    using assms(2) unfolding frame by (simp add: sent)
  have e: "readyState (sockets ?waited ! p) = OPEN"
    using b unfolding frame .
  have e2: "frames (sockets ?waited ! p) = frames (sockets this ! p) @ [Text terminate_message]"
    using a unfolding frame .
  have e3: "settled ?waited = settled this"
    using d unfolding frame .
  have f: "readyState (sockets (on_timeout ?waited) ! p) = CLOSING"
    using len e
    by (simp add: on_timeout_def next_t close_finish_def ws_close_def update_socket_def Let_def)
  have g: "settled (on_timeout ?waited) = settled this @ [close_resolved]"
    using len d unfolding frame(3) [symmetric]
    by (simp add: on_timeout_def next_t close_finish_def ws_close_def update_socket_def Let_def)
  from a b c d buf emitted e e2 e3 f g show ?thesis
    unfolding literal by blast
qed

theorem close_finalizes_waits_then_closes_witness:
  \<open>frames (sockets (close (run [CallSendAudio [1], WsOpen 0] sample_instance)) ! 0)
     = [Binary [1], Text ''{"terminate_session":true}'']
   \<and> readyState (sockets (close (run [CallSendAudio [1], WsOpen 0] sample_instance)) ! 0) = OPEN
   \<and> tasks (close (run [CallSendAudio [1], WsOpen 0] sample_instance)) = [AwaitTimeout 100 0]
   \<and> bufferIterator (foldl (\<lambda>s (d, now). on_message d now s)
        (close (run [CallSendAudio [1], WsOpen 0] sample_instance))
        [(Json (MsgTurn ''hi'' True), 5)]) = [Push (stt_output ''hi'' 5)]
   \<and> readyState (sockets (on_timeout (foldl (\<lambda>s (d, now). on_message d now s)
        (close (run [CallSendAudio [1], WsOpen 0] sample_instance))
        [(Json (MsgTurn ''hi'' True), 5)])) ! 0) = CLOSING\<close>
proof -
  let ?s = "run [CallSendAudio [1], WsOpen 0] sample_instance"
  have s: "?s = sample_instance\<lparr>connectionPromise := Some 0,
      sockets := [\<lparr> ws_url = connection_url sample_instance, ws_authorization = ''key'',
         readyState = OPEN, promise = Resolved, frames = [Binary [1]] \<rparr>],
      settled := [sendAudio_resolved]\<rparr>"
    by (simp add: eval_defs)
  have h: "connectionPromise ?s = Some 0" "0 < length (sockets ?s)"
    "promise (sockets ?s ! 0) = Resolved" "readyState (sockets ?s ! 0) = OPEN"
    "next_timeout (tasks ?s) = None"
    unfolding s by (simp_all add: sample_instance_def)
  from close_finalizes_waits_then_closes [OF h, of "[(Json (MsgTurn ''hi'' True), 5)]"]
  show ?thesis
    unfolding s by (simp add: sample_instance_def)
qed

text \<open>
  Claim C6 as stated fails: two formatted turns that arrive between the terminate frame
  and the end of the timer give two further \<open>stt_output\<close> events.
\<close>

theorem close_two_outputs_counterexample:
  "bufferIterator (run [CallSendAudio [1], WsOpen 0, CallClose] sample_instance) = []
   \<and> bufferIterator
       (run [CallSendAudio [1], WsOpen 0, CallClose,
             WsMessage 0 (Json (MsgTurn ''a'' True)) 1, WsMessage 0 (Json (MsgTurn ''b'' True)) 2,
             Timeout] sample_instance)
     = [Push (stt_output ''a'' 1), Push (stt_output ''b'' 2)]"
  by (simp add: eval_defs)

text \<open>
  Claim C6, amended. \<open>close\<close> and its timer make no call on the buffer, and each
  message that arrives adds at most one event. A second \<open>close\<close> after a completed
  one changes no socket, sends no frame and emits no event. If the first call has
  resolved and the socket is closing or closed, the second call writes its console line
  and waits for its timer, and when a timer for such a socket fires, \<open>close\<close> only
  resolves. If the socket's \<open>close\<close> event has been delivered, the instance holds no
  connection promise and \<open>close\<close> resolves at once.
\<close>

theorem close_idempotent_after_completed_close:
  "bufferIterator (close this) = bufferIterator this
   \<and> bufferIterator (on_timeout this) = bufferIterator this
   \<and> length (bufferIterator (on_message data now this)) \<le> Suc (length (bufferIterator this))
   \<and> (connectionPromise this = Some p \<and> p < length (sockets this) \<and>
       promise (sockets this ! p) = Resolved \<and>
       (readyState (sockets this ! p) = CLOSING \<or> readyState (sockets this ! p) = CLOSED) \<longrightarrow>
        close this =
          this\<lparr>console := console this @
                 [console_log ''[DEBUG] Sending terminate message to force turn formatting''],
               tasks := tasks this @ [AwaitTimeout 100 p]\<rparr>)
   \<and> (next_timeout (tasks s) = Some (q, rest) \<and> q < length (sockets s) \<and>
       (readyState (sockets s ! q) = CLOSING \<or> readyState (sockets s ! q) = CLOSED) \<longrightarrow>
        on_timeout s = s\<lparr>tasks := rest, settled := settled s @ [close_resolved]\<rparr>)
   \<and> (connectionPromise this = None \<longrightarrow>
        close this = this\<lparr>settled := settled this @ [close_resolved]\<rparr>)
   \<and> (q < length (sockets s) \<longrightarrow> connectionPromise (step (WsClose q) s) = None)"
proof -
  have quiet: "bufferIterator (close this) = bufferIterator this"
    "bufferIterator (on_timeout this) = bufferIterator this"
    by simp_all
  have one: "length (bufferIterator (on_message data now this)) \<le> Suc (length (bufferIterator this))"
    by (simp add: on_message_buffer split: raw_data.splits AssemblyAISTTMessage.splits)
  have again: "close this =
          this\<lparr>console := console this @
                 [console_log ''[DEBUG] Sending terminate message to force turn formatting''],
               tasks := tasks this @ [AwaitTimeout 100 p]\<rparr>"
    if "connectionPromise this = Some p" "p < length (sockets this)"
       "promise (sockets this ! p) = Resolved"
       "readyState (sockets this ! p) = CLOSING \<or> readyState (sockets this ! p) = CLOSED"
    using that
    by (auto simp: close_def await_connection_def resume_def log_def ws_send_def)
  have fired: "on_timeout s = s\<lparr>tasks := rest, settled := settled s @ [close_resolved]\<rparr>"
    if "next_timeout (tasks s) = Some (q, rest)" "q < length (sockets s)"
       "readyState (sockets s ! q) = CLOSING \<or> readyState (sockets s ! q) = CLOSED"
    using that
    by (auto simp: on_timeout_def close_finish_def ws_close_def update_socket_def Let_def)
  have closed: "close this = this\<lparr>settled := settled this @ [close_resolved]\<rparr>"
    if "connectionPromise this = None"
    using that by (simp add: close_def)
  have event: "connectionPromise (step (WsClose q) s) = None" if "q < length (sockets s)"
    using that by (simp add: step_def on_close_def)
  from quiet one again fired closed event show ?thesis by blast
qed

theorem close_idempotent_after_completed_close_witness:
  "on_timeout (close (run [CallSendAudio [1], WsOpen 0, CallClose, Timeout] sample_instance)) =
     (run [CallSendAudio [1], WsOpen 0, CallClose, Timeout] sample_instance)
       \<lparr>console :=
          [console_log ''[DEBUG] Sending terminate message to force turn formatting'',
           console_log ''[DEBUG] Sending terminate message to force turn formatting''],
        settled := [sendAudio_resolved, close_resolved, close_resolved]\<rparr>
   \<and> close (step (WsClose 0) (run [CallSendAudio [1], WsOpen 0, CallClose, Timeout] sample_instance)) =
     (step (WsClose 0) (run [CallSendAudio [1], WsOpen 0, CallClose, Timeout] sample_instance))
       \<lparr>settled := [sendAudio_resolved, close_resolved, close_resolved]\<rparr>"
proof -
  let ?s = "run [CallSendAudio [1], WsOpen 0, CallClose, Timeout] sample_instance"
  have s: "?s = sample_instance\<lparr>connectionPromise := Some 0,
      sockets := [\<lparr> ws_url = connection_url sample_instance, ws_authorization = ''key'',
         readyState = CLOSING, promise = Resolved,
         frames = [Binary [1], Text terminate_message] \<rparr>],
      settled := [sendAudio_resolved, close_resolved],
      console := [console_log ''[DEBUG] Sending terminate message to force turn formatting'']\<rparr>"
    by (simp add: eval_defs)
  have h: "connectionPromise ?s = Some 0 \<and> 0 < length (sockets ?s) \<and>
      promise (sockets ?s ! 0) = Resolved \<and>
      (readyState (sockets ?s ! 0) = CLOSING \<or> readyState (sockets ?s ! 0) = CLOSED)"
    unfolding s by (simp add: sample_instance_def)
  have second: "close ?s = ?s\<lparr>console := console ?s @
                 [console_log ''[DEBUG] Sending terminate message to force turn formatting''],
               tasks := tasks ?s @ [AwaitTimeout 100 0]\<rparr>"
    using close_idempotent_after_completed_close [of ?s "Json MsgBegin" 0 0 ?s 0 "[]"] h
    by blast
  have k: "next_timeout (tasks (close ?s)) = Some (0, []) \<and> 0 < length (sockets (close ?s)) \<and>
      (readyState (sockets (close ?s) ! 0) = CLOSING \<or> readyState (sockets (close ?s) ! 0) = CLOSED)"
    unfolding second unfolding s by (simp add: sample_instance_def)
  have fired: "on_timeout (close ?s) =
      (close ?s)\<lparr>tasks := [], settled := settled (close ?s) @ [close_resolved]\<rparr>"
    using close_idempotent_after_completed_close [of ?s "Json MsgBegin" 0 0 "close ?s" 0 "[]"] k
    by blast
  have a: "on_timeout (close ?s) = ?s\<lparr>console :=
          [console_log ''[DEBUG] Sending terminate message to force turn formatting'',
           console_log ''[DEBUG] Sending terminate message to force turn formatting''],
        settled := [sendAudio_resolved, close_resolved, close_resolved]\<rparr>"
  proof -
    have "(close ?s)\<lparr>tasks := [], settled := settled (close ?s) @ [close_resolved]\<rparr> =
        ?s\<lparr>console :=
          [console_log ''[DEBUG] Sending terminate message to force turn formatting'',
           console_log ''[DEBUG] Sending terminate message to force turn formatting''],
        settled := [sendAudio_resolved, close_resolved, close_resolved]\<rparr>"
      unfolding second unfolding s by (simp add: sample_instance_def)
    with fired show ?thesis by (rule trans)
  qed
  have l: "0 < length (sockets ?s)" "settled (step (WsClose 0) ?s) = [sendAudio_resolved, close_resolved]"
    unfolding s by (simp_all add: sample_instance_def step_def on_close_def update_socket_def)
  have none: "connectionPromise (step (WsClose 0) ?s) = None"
    using close_idempotent_after_completed_close [of ?s "Json MsgBegin" 0 0 ?s 0 "[]"] l(1)
    by blast
  have b: "close (step (WsClose 0) ?s) =
      (step (WsClose 0) ?s)\<lparr>settled := [sendAudio_resolved, close_resolved, close_resolved]\<rparr>"
    using close_idempotent_after_completed_close
      [of "step (WsClose 0) ?s" "Json MsgBegin" 0 0 ?s 0 "[]"] none l(2)
    by simp
  from a b show ?thesis by blast
qed

text \<open>
  Claim C5 as stated fails: \<open>sendAudio\<close> after \<open>close\<close> has finished and the
  socket has closed is not rejected. The getter finds no promise and opens a second
  socket, and the audio goes out on it once it is open.
\<close>

theorem send_after_close_counterexample:
  "settled (run [CallSendAudio [1], WsOpen 0, CallClose, Timeout, WsClose 0, CallSendAudio [2]]
              sample_instance) = [sendAudio_resolved, close_resolved]
   \<and> map readyState
       (sockets (run [CallSendAudio [1], WsOpen 0, CallClose, Timeout, WsClose 0, CallSendAudio [2]]
                   sample_instance)) = [CLOSED, CONNECTING]
   \<and> map frames
       (sockets (run [CallSendAudio [1], WsOpen 0, CallClose, Timeout, WsClose 0, CallSendAudio [2],
                      WsOpen 1] sample_instance))
     = [[Binary [1], Text terminate_message], [Binary [2]]]"
  by (simp add: eval_defs)

text \<open>
  Claim C5, amended. After the socket's \<open>close\<close> event the instance holds no
  connection promise; \<open>sendAudio\<close> then opens a new socket with the same address and
  key and waits for it, settling nothing; when that socket opens, the audio is sent on
  it and \<open>sendAudio\<close> resolves.
\<close>

theorem send_after_close_reconnects:
  assumes "p < length (sockets s)" and "this = step (WsClose p) s"
    and "n = length (sockets this)" and "waiting n (tasks this) = []"
  shows "connectionPromise this = None
    \<and> sendAudio buffer this =
        this\<lparr>sockets := sockets this @
               [\<lparr> ws_url = connection_url this, ws_authorization = apiKey this,
                   readyState = CONNECTING, promise = Pending, frames = [] \<rparr>],
             connectionPromise := Some n,
             tasks := tasks this @ [AwaitConnection n (SendAudioK buffer)]\<rparr>
    \<and> frames (sockets (step (WsOpen n) (sendAudio buffer this)) ! n) = [Binary buffer]
    \<and> settled (step (WsOpen n) (sendAudio buffer this)) = settled this @ [sendAudio_resolved]"
proof -
  have none: "connectionPromise this = None"
    using assms(1,2) by (simp add: step_def on_close_def update_socket_def)
  have sent: "sendAudio buffer this =
        this\<lparr>sockets := sockets this @
               [\<lparr> ws_url = connection_url this, ws_authorization = apiKey this,
                   readyState = CONNECTING, promise = Pending, frames = [] \<rparr>],
             connectionPromise := Some n,
             tasks := tasks this @ [AwaitConnection n (SendAudioK buffer)]\<rparr>"
    using none assms(3)
    by (simp add: sendAudio_def connection_def await_connection_def Let_def nth_append)
  have w: "waiting n (tasks this @ [AwaitConnection n (SendAudioK buffer)]) = [SendAudioK buffer]"
    using assms(4) by (simp add: waiting_append)
  have nw: "not_waiting n (tasks this @ [AwaitConnection n (SendAudioK buffer)]) = tasks this"
    using assms(4) by (simp add: not_waiting_append not_waiting_none)
  have opened: "step (WsOpen n) (sendAudio buffer this) =
        this\<lparr>sockets := sockets this @
               [\<lparr> ws_url = connection_url this, ws_authorization = apiKey this,
                   readyState = OPEN, promise = Resolved, frames = [Binary buffer] \<rparr>],
             connectionPromise := Some n,
             settled := settled this @ [sendAudio_resolved]\<rparr>"
    unfolding sent using assms(3)
    by (simp add: step_def on_open_def update_socket_def w [unfolded assms(3)]
        nw [unfolded assms(3)] resume_def ws_send_def nth_append)
  have a: "frames (sockets (step (WsOpen n) (sendAudio buffer this)) ! n) = [Binary buffer]"
    and b: "settled (step (WsOpen n) (sendAudio buffer this)) = settled this @ [sendAudio_resolved]"
    unfolding opened using assms(3) by (simp_all add: nth_append)
  from none sent a b show ?thesis by blast
qed

theorem send_after_close_reconnects_witness:
  "connectionPromise (step (WsClose 0) (run [CallSendAudio [1], WsOpen 0, CallClose, Timeout] sample_instance)) = None
   \<and> frames (sockets (step (WsOpen 1) (sendAudio [2]
        (step (WsClose 0) (run [CallSendAudio [1], WsOpen 0, CallClose, Timeout] sample_instance)))) ! 1)
       = [Binary [2]]"
proof -
  let ?s = "run [CallSendAudio [1], WsOpen 0, CallClose, Timeout] sample_instance"
  have h: "0 < length (sockets ?s)" "1 = length (sockets (step (WsClose 0) ?s))"
    "waiting 1 (tasks (step (WsClose 0) ?s)) = []"
    by (simp_all add: eval_defs)
  from send_after_close_reconnects [OF h(1) refl h(2) h(3), of "[2]"]
  show ?thesis by blast
qed

subsection \<open>Order of the events read\<close>




subsection \<open>Where the credentials come from\<close>

text \<open>
  Claim C8 as stated fails: with the same options the constructor succeeds or throws
  depending on \<open>process.env\<close>, which it reads for the key.
\<close>

theorem constructor_reads_environment_counterexample:
  "constructor \<lparr>opt_apiKey = None, opt_sampleRate = None, opt_formatTurns = None\<rparr>
     [''ASSEMBLYAI_API_KEY'' \<mapsto> ''key''] = Inr sample_instance
   \<and> constructor \<lparr>opt_apiKey = None, opt_sampleRate = None, opt_formatTurns = None\<rparr>
     Map.empty = Inl (JsError ''AssemblyAI API key is required'')"
  by (simp add: constructor_def or_string_def or_number_def or_boolean_def sample_instance_def)

text \<open>
  Claim C8, amended. Once \<open>getSecrets\<close> has returned a secrets object, that object
  is cached, and calling \<open>getSecrets\<close> again returns it and changes nothing, so the
  secret is fetched once. A call that was not served from the cache fetched once and
  assigned the entries to \<open>process.env\<close> in order, except those the environment
  cannot hold. The constructor takes the key from its options when they hold a
  non-empty one, and otherwise from \<open>ASSEMBLYAI_API_KEY\<close> of the environment.
\<close>

theorem secrets_cached_key_from_environment:
  "(getSecrets send parse st = (Inr (SecretsRecord entries), st1) \<longrightarrow>
      getSecrets send parse st1 = (Inr (SecretsRecord entries), st1)
      \<and> fetches st1 \<le> fetches st + 1
      \<and> cachedSecrets st1 = SecretsRecord entries
      \<and> (cachedSecrets st \<noteq> SecretsRecord entries \<longrightarrow>
           fetches st1 = fetches st + 1 \<and>
           process_env st1 =
             foldl (\<lambda>e (key, val).
                      if key = [] \<or> CHR ''='' \<in> set key then e else e(key \<mapsto> val))
               (process_env st) entries))
   \<and> (opt_apiKey options = Some a \<and> a \<noteq> [] \<longrightarrow>
        (\<exists>this. constructor options env = Inr this \<and> apiKey this = a))
   \<and> ((opt_apiKey options = None \<or> opt_apiKey options = Some []) \<and>
       env ''ASSEMBLYAI_API_KEY'' = Some k \<and> k \<noteq> [] \<longrightarrow>
        (\<exists>this. constructor options env = Inr this \<and> apiKey this = k))"
proof -
  have cached: "cachedSecrets st1 = SecretsRecord entries"
    if "getSecrets send parse st = (Inr (SecretsRecord entries), st1)"
    using that
    by (auto simp: getSecrets_def Let_def
        split: secrets.splits option.splits if_splits sum.splits)
  have again: "getSecrets send parse st1 = (Inr (SecretsRecord entries), st1)"
    if "getSecrets send parse st = (Inr (SecretsRecord entries), st1)"
    using cached [OF that] by (simp add: getSecrets_def)
  have unfold_env: "set_environment entries e =
      foldl (\<lambda>e (key, val). if key = [] \<or> CHR ''='' \<in> set key then e else e(key \<mapsto> val))
        e entries" for e
    by (simp add: set_environment_def assign_environment_def)
  have count: "fetches st1 \<le> fetches st + 1 \<and>
      (cachedSecrets st \<noteq> SecretsRecord entries \<longrightarrow>
        fetches st1 = fetches st + 1 \<and> process_env st1 = set_environment entries (process_env st))"
    if "getSecrets send parse st = (Inr (SecretsRecord entries), st1)"
    using that
    by (auto simp: getSecrets_def Let_def
        split: secrets.splits option.splits if_splits sum.splits)
  have own: "opt_apiKey options = Some a \<and> a \<noteq> [] \<longrightarrow>
        (\<exists>this. constructor options env = Inr this \<and> apiKey this = a)"
    by (auto simp: constructor_def or_string_def Let_def)
  have key: "(opt_apiKey options = None \<or> opt_apiKey options = Some []) \<and>
       env ''ASSEMBLYAI_API_KEY'' = Some k \<and> k \<noteq> [] \<longrightarrow>
        (\<exists>this. constructor options env = Inr this \<and> apiKey this = k)"
    by (auto simp: constructor_def or_string_def Let_def split: option.splits)
  from again cached count [unfolded unfold_env] own key show ?thesis by blast
qed

theorem secrets_cached_key_from_environment_witness:
  "getSecrets (\<lambda>region arn. Inr (Some ''secret''))
     (\<lambda>s. Inr (SecretsRecord [(''ASSEMBLYAI_API_KEY'', ''key''), (''A=B'', ''dropped'')]))
     \<lparr>cachedSecrets = SecretsNull, process_env = [''SECRETS_ARN'' \<mapsto> ''arn''], fetches = 0\<rparr>
   = (Inr (SecretsRecord [(''ASSEMBLYAI_API_KEY'', ''key''), (''A=B'', ''dropped'')]),
      \<lparr>cachedSecrets = SecretsRecord [(''ASSEMBLYAI_API_KEY'', ''key''), (''A=B'', ''dropped'')],
        process_env = [''SECRETS_ARN'' \<mapsto> ''arn'', ''ASSEMBLYAI_API_KEY'' \<mapsto> ''key''],
        fetches = 1\<rparr>)
   \<and> getSecrets (\<lambda>region arn. Inr (Some ''secret''))
      (\<lambda>s. Inr (SecretsRecord [(''ASSEMBLYAI_API_KEY'', ''key''), (''A=B'', ''dropped'')]))
      \<lparr>cachedSecrets = SecretsRecord [(''ASSEMBLYAI_API_KEY'', ''key''), (''A=B'', ''dropped'')],
        process_env = [''SECRETS_ARN'' \<mapsto> ''arn'', ''ASSEMBLYAI_API_KEY'' \<mapsto> ''key''],
        fetches = 1\<rparr>
   = (Inr (SecretsRecord [(''ASSEMBLYAI_API_KEY'', ''key''), (''A=B'', ''dropped'')]),
      \<lparr>cachedSecrets = SecretsRecord [(''ASSEMBLYAI_API_KEY'', ''key''), (''A=B'', ''dropped'')],
        process_env = [''SECRETS_ARN'' \<mapsto> ''arn'', ''ASSEMBLYAI_API_KEY'' \<mapsto> ''key''],
        fetches = 1\<rparr>)
   \<and> (\<exists>this. constructor \<lparr>opt_apiKey = None, opt_sampleRate = None, opt_formatTurns = None\<rparr>
        [''SECRETS_ARN'' \<mapsto> ''arn'', ''ASSEMBLYAI_API_KEY'' \<mapsto> ''key''] = Inr this \<and> apiKey this = ''key'')
   \<and> (\<exists>this. constructor \<lparr>opt_apiKey = Some ''mine'', opt_sampleRate = None, opt_formatTurns = None\<rparr>
        [''SECRETS_ARN'' \<mapsto> ''arn'', ''ASSEMBLYAI_API_KEY'' \<mapsto> ''key''] = Inr this \<and> apiKey this = ''mine'')"
proof -
  let ?send = "\<lambda>(region :: string option) (arn :: string). (Inr (Some ''secret'') :: js_error + string option)"
  let ?entries = "[(''ASSEMBLYAI_API_KEY'', ''key''), (''A=B'', ''dropped'')]"
  let ?parse = "\<lambda>s :: string. (Inr (SecretsRecord ?entries) :: js_error + secrets)"
  let ?st = "\<lparr>cachedSecrets = SecretsNull, process_env = [''SECRETS_ARN'' \<mapsto> ''arn''], fetches = 0\<rparr>"
  let ?env = "[''SECRETS_ARN'' \<mapsto> ''arn'', ''ASSEMBLYAI_API_KEY'' \<mapsto> ''key'']"
  let ?st1 = "\<lparr>cachedSecrets = SecretsRecord ?entries, process_env = ?env, fetches = 1\<rparr>"
  have first: "getSecrets ?send ?parse ?st = (Inr (SecretsRecord ?entries), ?st1)"
    by (simp add: getSecrets_def set_environment_def assign_environment_def)
  have env: "?env ''ASSEMBLYAI_API_KEY'' = Some ''key''"
    by simp
  have a: "getSecrets ?send ?parse ?st1 = (Inr (SecretsRecord ?entries), ?st1)"
    and b: "\<exists>this. constructor \<lparr>opt_apiKey = None, opt_sampleRate = None, opt_formatTurns = None\<rparr>
        ?env = Inr this \<and> apiKey this = ''key''"
    using secrets_cached_key_from_environment
      [of ?send ?parse ?st ?entries ?st1
        "\<lparr>opt_apiKey = None, opt_sampleRate = None, opt_formatTurns = None\<rparr>" "''x''"
        ?env "''key''"]
      first env
    by simp_all
  have c: "\<exists>this. constructor \<lparr>opt_apiKey = Some ''mine'', opt_sampleRate = None, opt_formatTurns = None\<rparr>
        ?env = Inr this \<and> apiKey this = ''mine''"
    using secrets_cached_key_from_environment
      [of ?send ?parse ?st ?entries ?st1
        "\<lparr>opt_apiKey = Some ''mine'', opt_sampleRate = None, opt_formatTurns = None\<rparr>" "''mine''"
        ?env "''key''"]
    by simp
  from first a b c show ?thesis by blast
qed

end
